theory Spec2Isabelle
  imports Main
begin

section \<open>Strings\<close>

text \<open>
  A Python \<open>str\<close> is modelled as a \<open>string\<close>: the list of the bytes of its UTF-8
  encoding. The character classes below are Python's on ASCII (\<open>str.isspace\<close> and the
  regular expression classes \<open>\s\<close>, \<open>\d\<close> agree there); a character outside ASCII is
  several bytes, none of them a space, a digit or a cased letter in this model.
\<close>

definition is_space :: "char \<Rightarrow> bool" where
  "is_space c = (c \<in> set [CHR 0x09, CHR 0x0A, CHR 0x0B, CHR 0x0C, CHR 0x0D,
                            CHR 0x1C, CHR 0x1D, CHR 0x1E, CHR 0x1F, CHR 0x20])"

definition is_digit :: "char \<Rightarrow> bool" where
  "is_digit c = (c \<in> set ''0123456789'')"

definition lstrip :: "string \<Rightarrow> string" where
  "lstrip s = dropWhile is_space s"

definition rstrip :: "string \<Rightarrow> string" where
  "rstrip s = rev (dropWhile is_space (rev s))"

text \<open>\<open>str.strip()\<close> with no argument.\<close>

definition strip :: "string \<Rightarrow> string" where
  "strip s = rstrip (lstrip s)"

text \<open>\<open>str.lower()\<close>, on the ASCII letters.\<close>

definition lower_char :: "char \<Rightarrow> char" where
  "lower_char c =
     (case map_of (zip ''ABCDEFGHIJKLMNOPQRSTUVWXYZ'' ''abcdefghijklmnopqrstuvwxyz'') c of
        None \<Rightarrow> c
      | Some l \<Rightarrow> l)"

definition py_lower :: "string \<Rightarrow> string" where
  "py_lower s = map lower_char s"

text \<open>\<open>t in s\<close> on strings: \<open>t\<close> occurs in \<open>s\<close>.\<close>

fun str_in :: "string \<Rightarrow> string \<Rightarrow> bool" where
  "str_in t [] = (t = [])"
| "str_in t (c # s) = (take (length t) (c # s) = t \<or> str_in t s)"

text \<open>The decimal text of an integer, as \<open>str\<close> and an f-string print it.\<close>

fun show_nat :: "nat \<Rightarrow> string" where
  "show_nat n =
     (if n < 10 then [''0123456789'' ! n]
      else show_nat (n div 10) @ [''0123456789'' ! (n mod 10)])"

declare show_nat.simps [simp del]

definition show_int :: "int \<Rightarrow> string" where
  "show_int i = (if i < 0 then ''-'' @ show_nat (nat (- i)) else show_nat (nat i))"

section \<open>The input parser (utils/input\_parser.py)\<close>

subsection \<open>Backtracking regular expressions\<close>

text \<open>
  The fragment of Python's \<open>re\<close> syntax that the parser's pattern uses: literals, the
  classes \<open>.\<close>, \<open>\s\<close>, \<open>\d\<close>, a class repeated \<open>{n}\<close> times, \<open>+\<close> (greedy) and
  \<open>+?\<close> (lazy) on a class, alternation, concatenation and capturing groups (not nested).
\<close>

datatype cclass = Dot | Space | Digit

fun cmatch :: "cclass \<Rightarrow> char \<Rightarrow> bool" where
  "cmatch Dot c = (c \<noteq> CHR 0x0A)"
| "cmatch Space c = is_space c"
| "cmatch Digit c = is_digit c"

datatype rx =
    Lit string
  | Rep nat cclass
  | PlusGreedy cclass
  | PlusLazy cclass
  | Alt rx rx
  | Cat rx rx
  | Grp rx

text \<open>
  \<open>plus_lazy p s\<close>: what is left of \<open>s\<close> after one, two, ... leading characters that
  satisfy \<open>p\<close>, the shortest consumption first.
\<close>

fun plus_lazy :: "(char \<Rightarrow> bool) \<Rightarrow> string \<Rightarrow> string list" where
  "plus_lazy p [] = []"
| "plus_lazy p (c # s) = (if p c then s # plus_lazy p s else [])"

text \<open>
  \<open>run r s\<close> lists every way \<open>r\<close> matches a prefix of \<open>s\<close>, as the pair of the groups
  captured and the rest of the input, in the order in which a backtracking matcher tries
  them: the head of the list is the match that \<open>re.match\<close> reports.
\<close>

fun run :: "rx \<Rightarrow> string \<Rightarrow> (string list \<times> string) list" where
  "run (Lit l) s = (if take (length l) s = l then [([], drop (length l) s)] else [])"
| "run (Rep n c) s =
     (if n \<le> length s \<and> list_all (cmatch c) (take n s) then [([], drop n s)] else [])"
| "run (PlusGreedy c) s = map (\<lambda>r. ([], r)) (rev (plus_lazy (cmatch c) s))"
| "run (PlusLazy c) s = map (\<lambda>r. ([], r)) (plus_lazy (cmatch c) s)"
| "run (Alt a b) s = run a s @ run b s"
| "run (Cat a b) s =
     concat (map (\<lambda>(g1, r1). map (\<lambda>(g2, r2). (g1 @ g2, r2)) (run b r1)) (run a s))"
| "run (Grp a) s = map (\<lambda>(g, r). (g @ [take (length s - length r) s], r)) (run a s)"

definition re_match :: "rx \<Rightarrow> string \<Rightarrow> string list option" where
  "re_match r s = (case run r s of [] \<Rightarrow> None | (g, _) # _ \<Rightarrow> Some g)"

subsection \<open>parse\_user\_input\<close>

text \<open>\<open>(?:vs|VS|v|V)\<close>\<close>

definition vs_sep :: rx where
  "vs_sep = Alt (Lit ''vs'') (Alt (Lit ''VS'') (Alt (Lit ''v'') (Lit ''V'')))"

text \<open>\<open>(?:on|ON)\<close>\<close>

definition on_sep :: rx where
  "on_sep = Alt (Lit ''on'') (Lit ''ON'')"

text \<open>\<open>(\d{4}-\d{2}-\d{2})\<close>\<close>

definition date_rx :: rx where
  "date_rx = Grp (Cat (Rep 4 Digit) (Cat (Lit ''-'') (Cat (Rep 2 Digit)
                 (Cat (Lit ''-'') (Rep 2 Digit)))))"

text \<open>\<open>(.+?)\s+(?:vs|VS|v|V)\s+(.+?)\s+(?:on|ON)\s+(\d{4}-\d{2}-\d{2})\<close>\<close>

definition pattern :: rx where
  "pattern =
     Cat (Grp (PlusLazy Dot)) (Cat (PlusGreedy Space) (Cat vs_sep (Cat (PlusGreedy Space)
       (Cat (Grp (PlusLazy Dot)) (Cat (PlusGreedy Space) (Cat on_sep (Cat (PlusGreedy Space)
         date_rx)))))))"

definition parse_user_input :: "string \<Rightarrow> (string \<times> string \<times> string) option" where
  "parse_user_input input_text =
     (let input_text = strip input_text in
      if input_text = [] then None
      else case re_match pattern input_text of
             None \<Rightarrow> None
           | Some g \<Rightarrow>
               (case g of
                  [g1, g2, g3] \<Rightarrow> Some (strip g1, strip g2, strip g3)
                | _ \<Rightarrow> None))"

section \<open>Python values\<close>

text \<open>
  The values that \<open>response.json()\<close> yields. The numbers of the statistics API (minutes,
  counts, identifiers) are integers; floating-point numbers are not modelled. A \<open>dict\<close>
  is the list of its items in insertion order, with distinct keys.
\<close>

datatype json =
    JNull
  | JBool bool
  | JInt int
  | JStr string
  | JArr "json list"
  | JObj "(string \<times> json) list"

datatype exn = KeyError | IndexError | TypeError | AttributeError | OtherError string

definition bindE :: "exn + 'a \<Rightarrow> ('a \<Rightarrow> exn + 'b) \<Rightarrow> exn + 'b" where
  "bindE m f = (case m of Inl e \<Rightarrow> Inl e | Inr x \<Rightarrow> f x)"

text \<open>Python's truth value of an object: \<open>None\<close>, \<open>False\<close>, zero and empty containers are false.\<close>

fun truthy :: "json \<Rightarrow> bool" where
  "truthy JNull = False"
| "truthy (JBool b) = b"
| "truthy (JInt i) = (i \<noteq> 0)"
| "truthy (JStr s) = (s \<noteq> [])"
| "truthy (JArr xs) = (xs \<noteq> [])"
| "truthy (JObj kvs) = (kvs \<noteq> [])"

text \<open>\<open>x or d\<close>\<close>

definition py_or :: "json \<Rightarrow> json \<Rightarrow> json" where
  "py_or x d = (if truthy x then x else d)"

text \<open>\<open>d.get(k, default)\<close>: only a \<open>dict\<close> has the method.\<close>

fun dict_get :: "json \<Rightarrow> string \<Rightarrow> json \<Rightarrow> exn + json" where
  "dict_get (JObj kvs) k d = Inr (case map_of kvs k of None \<Rightarrow> d | Some v \<Rightarrow> v)"
| "dict_get _ k d = Inl AttributeError"

text \<open>\<open>d[k]\<close> with a string key.\<close>

fun subscript :: "json \<Rightarrow> string \<Rightarrow> exn + json" where
  "subscript (JObj kvs) k = (case map_of kvs k of None \<Rightarrow> Inl KeyError | Some v \<Rightarrow> Inr v)"
| "subscript _ k = Inl TypeError"

text \<open>
  \<open>x[0]\<close>: the first element of a list, the first character of a string; the keys of a
  parsed object are strings, so \<open>0\<close> is never one of them.
\<close>

fun subscript0 :: "json \<Rightarrow> exn + json" where
  "subscript0 (JArr []) = Inl IndexError"
| "subscript0 (JArr (x # xs)) = Inr x"
| "subscript0 (JStr []) = Inl IndexError"
| "subscript0 (JStr (c # s)) = Inr (JStr [c])"
| "subscript0 (JObj kvs) = Inl KeyError"
| "subscript0 _ = Inl TypeError"

text \<open>\<open>len(x)\<close>\<close>

fun py_len :: "json \<Rightarrow> exn + nat" where
  "py_len (JArr xs) = Inr (length xs)"
| "py_len (JStr s) = Inr (length s)"
| "py_len (JObj kvs) = Inr (length kvs)"
| "py_len _ = Inl TypeError"

text \<open>\<open>x > n\<close> for an integer \<open>n\<close>; \<open>bool\<close> is a subclass of \<open>int\<close>.\<close>

fun py_gt :: "json \<Rightarrow> int \<Rightarrow> exn + bool" where
  "py_gt (JInt i) n = Inr (i > n)"
| "py_gt (JBool b) n = Inr ((if b then 1 else 0) > n)"
| "py_gt _ n = Inl TypeError"

text \<open>\<open>for x in v\<close>: the elements of a list, the keys of a dict, the characters of a string.\<close>

fun py_iter :: "json \<Rightarrow> exn + json list" where
  "py_iter (JArr xs) = Inr xs"
| "py_iter (JObj kvs) = Inr (map (\<lambda>kv. JStr (fst kv)) kvs)"
| "py_iter (JStr s) = Inr (map (\<lambda>c. JStr [c]) s)"
| "py_iter _ = Inl TypeError"

text \<open>\<open>s.lower()\<close>\<close>

fun str_lower :: "json \<Rightarrow> exn + string" where
  "str_lower (JStr s) = Inr (py_lower s)"
| "str_lower _ = Inl AttributeError"

text \<open>
  \<open>k in v\<close> for a string \<open>k\<close>: a key of a dict, an element of a list, a substring of a
  string.
\<close>

fun py_in :: "string \<Rightarrow> json \<Rightarrow> exn + bool" where
  "py_in k (JObj kvs) = Inr (k \<in> fst ` set kvs)"
| "py_in k (JArr xs) = Inr (JStr k \<in> set xs)"
| "py_in k (JStr s) = Inr (str_in k s)"
| "py_in k _ = Inl TypeError"

fun is_str :: "json \<Rightarrow> bool" where
  "is_str (JStr s) = True"
| "is_str _ = False"

text \<open>
  \<open>str(v)\<close>, as an f-string formats \<open>v\<close>. The text of a list or of a dict is Python's
  \<open>repr\<close> of it, which is taken as the parameter \<open>rp\<close>.
\<close>

fun py_str :: "(json \<Rightarrow> string) \<Rightarrow> json \<Rightarrow> string" where
  "py_str rp JNull = ''None''"
| "py_str rp (JBool b) = (if b then ''True'' else ''False'')"
| "py_str rp (JInt i) = show_int i"
| "py_str rp (JStr s) = s"
| "py_str rp v = rp v"

section \<open>The statistics client (utils/api\_client.py)\<close>

text \<open>
  The outcome of \<open>requests.get\<close>: a response with its status code, its text and its body
  as \<open>response.json()\<close> reads it, or one of the exceptions of the \<open>requests\<close> library with
  its message. A body that is not JSON makes \<open>response.json()\<close> raise; the flag says
  whether that exception is a \<open>requests.exceptions.RequestException\<close> (as it is since
  requests 2.27) or a plain \<open>json.JSONDecodeError\<close>.
\<close>

datatype body = Parsed json | Malformed bool string

datatype http_outcome =
    Response int string body
  | Timeout
  | ConnectionError string
  | RequestException string

type_synonym network = "string \<Rightarrow> (string \<times> string) list \<Rightarrow> http_outcome"

definition errors_dict :: "string \<Rightarrow> json" where
  "errors_dict msg = JObj [(''errors'', JStr msg)]"

fun make_request_result :: "http_outcome \<Rightarrow> json" where
  "make_request_result (Response status_code text b) =
     (if status_code = 401 then
        errors_dict ''Authentication failed: Invalid API key (status 401)''
      else if status_code = 403 then
        errors_dict (''Access denied: '' @ text @ '' (status 403)'')
      else if status_code = 429 then
        errors_dict ''Rate limit exceeded (status 429)''
      else if status_code \<noteq> 200 then
        errors_dict (''HTTP '' @ show_int status_code @ '': '' @ text)
      else
        (case b of
           Parsed j \<Rightarrow> j
         | Malformed is_request_exception msg \<Rightarrow>
             if is_request_exception then errors_dict (''Request failed: '' @ msg)
             else errors_dict (''Invalid JSON response: '' @ msg)))"
| "make_request_result Timeout = errors_dict ''Request timeout''"
| "make_request_result (ConnectionError msg) = errors_dict (''Connection error: '' @ msg)"
| "make_request_result (RequestException msg) = errors_dict (''Request failed: '' @ msg)"

definition make_request :: "network \<Rightarrow> string \<Rightarrow> (string \<times> string) list \<Rightarrow> json" where
  "make_request net endpoint params = make_request_result (net endpoint params)"

text \<open>
  The two checks that both operations make on the response: \<open>True\<close> when the response
  carries an error and the operation gives up.
\<close>

definition has_errors :: "json \<Rightarrow> exn + bool" where
  "has_errors response =
     bindE (py_in ''errors'' response) (\<lambda>present.
     bindE (if present then bindE (subscript response ''errors'') (\<lambda>e. Inr (is_str e))
            else Inr False) (\<lambda>internal.
     if internal then Inr True
     else
       bindE (dict_get response ''errors'' JNull) (\<lambda>e.
       if truthy e then
         bindE (subscript response ''errors'') (\<lambda>e'.
         bindE (py_len e') (\<lambda>n. Inr (n > 0)))
       else Inr False)))"

text \<open>The loop over the fixtures of the response.\<close>

fun scan_fixtures :: "string \<Rightarrow> string \<Rightarrow> json list \<Rightarrow> exn + json option" where
  "scan_fixtures team1 team2 [] = Inr None"
| "scan_fixtures team1 team2 (fixture # fixtures) =
     bindE (dict_get fixture ''teams'' JNull) (\<lambda>teams.
     if \<not> truthy teams then scan_fixtures team1 team2 fixtures
     else
       bindE (subscript fixture ''teams'') (\<lambda>t.
       bindE (subscript t ''home'') (\<lambda>h.
       bindE (subscript h ''name'') (\<lambda>hn.
       bindE (str_lower hn) (\<lambda>home_team.
       bindE (subscript fixture ''teams'') (\<lambda>t.
       bindE (subscript t ''away'') (\<lambda>a.
       bindE (subscript a ''name'') (\<lambda>an.
       bindE (str_lower an) (\<lambda>away_team.
       let team1_lower = py_lower team1; team2_lower = py_lower team2 in
       if (str_in team1_lower home_team \<and> str_in team2_lower away_team)
          \<or> (str_in team1_lower away_team \<and> str_in team2_lower home_team)
       then Inr (Some fixture)
       else scan_fixtures team1 team2 fixtures)))))))))"

definition find_fixture :: "network \<Rightarrow> string \<Rightarrow> string \<Rightarrow> string \<Rightarrow> exn + json option" where
  "find_fixture net team1 team2 date =
     (let response = make_request net ''fixtures'' [(''date'', date)] in
      bindE (has_errors response) (\<lambda>err.
      if err then Inr None
      else
        bindE (dict_get response ''response'' (JArr [])) (\<lambda>fixtures.
        bindE (py_iter fixtures) (\<lambda>fs. scan_fixtures team1 team2 fs))))"

definition get_player_stats :: "network \<Rightarrow> int \<Rightarrow> exn + json" where
  "get_player_stats net fixture_id =
     (let response = make_request net ''fixtures/players'' [(''fixture'', show_int fixture_id)] in
      bindE (has_errors response) (\<lambda>err.
      if err then Inr (JArr [])
      else
        bindE (dict_get response ''response'' (JArr [])) (\<lambda>stats.
        if \<not> truthy stats then Inr (JArr []) else Inr stats)))"

section \<open>The MVP tool (tools/football\_tools.py)\<close>

abbreviation nl :: string where
  "nl \<equiv> [CHR 0x0A]"

text \<open>The symbols of the digest that are outside ASCII, as their UTF-8 bytes.\<close>

definition bullet :: string where
  "bullet = [CHR 0xE2, CHR 0x80, CHR 0xA2]"

definition chart :: string where
  "chart = [CHR 0xF0, CHR 0x9F, CHR 0x93, CHR 0x8A]"

definition shield :: string where
  "shield = [CHR 0xF0, CHR 0x9F, CHR 0x9B, CHR 0xA1, CHR 0xEF, CHR 0xB8, CHR 0x8F]"

definition yellow_square :: string where
  "yellow_square = [CHR 0xF0, CHR 0x9F, CHR 0x9F, CHR 0xA8]"

definition le_sign :: string where
  "le_sign = [CHR 0xE2, CHR 0x89, CHR 0xA4]"

subsection \<open>\_create\_player\_summary\<close>

text \<open>\<open>d.get(k) or default\<close>\<close>

definition get_or :: "json \<Rightarrow> string \<Rightarrow> json \<Rightarrow> exn + json" where
  "get_or d k dflt = bindE (dict_get d k JNull) (\<lambda>v. Inr (py_or v dflt))"

text \<open>The local variables that the summary reads from one statistics entry.\<close>

record stat_values =
  minutes :: json
  position :: json
  rating :: json
  goals :: json
  assists :: json
  saves :: json
  shots_total :: json
  shots_on_target :: json
  passes_total :: json
  passes_accuracy :: json
  key_passes :: json
  tackles_total :: json
  interceptions :: json
  duels_total :: json
  duels_won :: json
  yellow_cards :: json
  red_cards :: json

text \<open>\<open>player["statistics"][0] if player.get("statistics") else {}\<close>\<close>

definition first_statistics :: "json \<Rightarrow> exn + json" where
  "first_statistics player =
     bindE (dict_get player ''statistics'' JNull) (\<lambda>st.
     if truthy st then bindE (subscript player ''statistics'') subscript0
     else Inr (JObj []))"

definition extract_stats :: "json \<Rightarrow> exn + stat_values" where
  "extract_stats stats =
     bindE (dict_get stats ''games'' (JObj [])) (\<lambda>games.
     bindE (dict_get stats ''goals'' (JObj [])) (\<lambda>goals_stats.
     bindE (dict_get stats ''passes'' (JObj [])) (\<lambda>passes_stats.
     bindE (dict_get stats ''tackles'' (JObj [])) (\<lambda>tackles_stats.
     bindE (dict_get stats ''duels'' (JObj [])) (\<lambda>duels_stats.
     bindE (dict_get stats ''shots'' (JObj [])) (\<lambda>shots_stats.
     bindE (dict_get stats ''cards'' (JObj [])) (\<lambda>cards_stats.
     bindE (get_or games ''minutes'' (JInt 0)) (\<lambda>v_minutes.
     bindE (get_or games ''position'' (JStr ''Unknown'')) (\<lambda>v_position.
     bindE (get_or games ''rating'' (JStr ''N/A'')) (\<lambda>v_rating.
     bindE (get_or goals_stats ''total'' (JInt 0)) (\<lambda>v_goals.
     bindE (get_or goals_stats ''assists'' (JInt 0)) (\<lambda>v_assists.
     bindE (get_or goals_stats ''saves'' (JInt 0)) (\<lambda>v_saves.
     bindE (get_or shots_stats ''total'' (JInt 0)) (\<lambda>v_shots_total.
     bindE (get_or shots_stats ''on'' (JInt 0)) (\<lambda>v_shots_on_target.
     bindE (get_or passes_stats ''total'' (JInt 0)) (\<lambda>v_passes_total.
     bindE (dict_get passes_stats ''accuracy'' JNull) (\<lambda>v_passes_accuracy.
     bindE (get_or passes_stats ''key'' (JInt 0)) (\<lambda>v_key_passes.
     bindE (get_or tackles_stats ''total'' (JInt 0)) (\<lambda>v_tackles_total.
     bindE (get_or tackles_stats ''interceptions'' (JInt 0)) (\<lambda>v_interceptions.
     bindE (get_or duels_stats ''total'' (JInt 0)) (\<lambda>v_duels_total.
     bindE (get_or duels_stats ''won'' (JInt 0)) (\<lambda>v_duels_won.
     bindE (get_or cards_stats ''yellow'' (JInt 0)) (\<lambda>v_yellow_cards.
     bindE (get_or cards_stats ''red'' (JInt 0)) (\<lambda>v_red_cards.
     Inr \<lparr>minutes = v_minutes, position = v_position, rating = v_rating,
          goals = v_goals, assists = v_assists, saves = v_saves,
          shots_total = v_shots_total, shots_on_target = v_shots_on_target,
          passes_total = v_passes_total, passes_accuracy = v_passes_accuracy,
          key_passes = v_key_passes, tackles_total = v_tackles_total,
          interceptions = v_interceptions, duels_total = v_duels_total,
          duels_won = v_duels_won, yellow_cards = v_yellow_cards,
          red_cards = v_red_cards\<rparr>))))))))))))))))))))))))"

text \<open>\<open>a > 0 or b > 0\<close>: the second comparison is made only when the first is false.\<close>

definition gt0_or :: "json \<Rightarrow> exn + bool \<Rightarrow> exn + bool" where
  "gt0_or a rest = bindE (py_gt a 0) (\<lambda>b. if b then Inr True else rest)"

text \<open>The first line of a player's paragraph.\<close>

definition headline :: "(json \<Rightarrow> string) \<Rightarrow> json \<Rightarrow> stat_values \<Rightarrow> exn + string" where
  "headline rp player_info v =
     bindE (subscript player_info ''name'') (\<lambda>name.
     let s = bullet @ '' '' @ py_str rp name @ '' ('' @ py_str rp (position v) @ '') - ''
               @ py_str rp (minutes v) @ ''min'';
         s = (if rating v \<noteq> JStr ''N/A'' then s @ '', Rating: '' @ py_str rp (rating v) else s)
     in
     bindE (py_gt (goals v) 0) (\<lambda>b.
     let s = (if b then s @ '', Goals: '' @ py_str rp (goals v) else s) in
     bindE (py_gt (assists v) 0) (\<lambda>b.
     let s = (if b then s @ '', Assists: '' @ py_str rp (assists v) else s) in
     bindE (py_gt (saves v) 0) (\<lambda>b.
     let s = (if b then s @ '', Saves: '' @ py_str rp (saves v) else s) in
     Inr (s @ nl)))))"

definition attack_line :: "(json \<Rightarrow> string) \<Rightarrow> stat_values \<Rightarrow> exn + string" where
  "attack_line rp v =
     bindE (gt0_or (shots_total v) (py_gt (passes_total v) 0)) (\<lambda>b.
     if b then
       let s = ''  '' @ chart @ '' Attack: '' @ py_str rp (shots_total v) @ '' shots (''
                 @ py_str rp (shots_on_target v) @ '' on target), ''
                 @ py_str rp (passes_total v) @ '' passes'';
           s = (if passes_accuracy v \<noteq> JNull
                then s @ '' ('' @ py_str rp (passes_accuracy v) @ ''% acc)'' else s)
       in
       bindE (py_gt (key_passes v) 0) (\<lambda>k.
       let s = (if k then s @ '', '' @ py_str rp (key_passes v) @ '' key passes'' else s) in
       Inr (s @ nl))
     else Inr [])"

definition defense_line :: "(json \<Rightarrow> string) \<Rightarrow> stat_values \<Rightarrow> exn + string" where
  "defense_line rp v =
     bindE (gt0_or (tackles_total v) (gt0_or (interceptions v) (py_gt (duels_total v) 0))) (\<lambda>b.
     if b then
       let s = ''  '' @ shield @ '' Defense: '' @ py_str rp (tackles_total v) @ '' tackles, ''
                 @ py_str rp (interceptions v) @ '' interceptions''
       in
       bindE (py_gt (duels_total v) 0) (\<lambda>d.
       let s = (if d then s @ '', '' @ py_str rp (duels_won v) @ ''/''
                            @ py_str rp (duels_total v) @ '' duels won'' else s) in
       Inr (s @ nl))
     else Inr [])"

definition cards_line :: "(json \<Rightarrow> string) \<Rightarrow> stat_values \<Rightarrow> exn + string" where
  "cards_line rp v =
     bindE (gt0_or (yellow_cards v) (py_gt (red_cards v) 0)) (\<lambda>b.
     if b then
       Inr (''  '' @ yellow_square @ '' Cards: '' @ py_str rp (yellow_cards v) @ '' yellow, ''
              @ py_str rp (red_cards v) @ '' red'' @ nl)
     else Inr [])"

text \<open>What one iteration of the inner loop appends to \<open>summary\<close>.\<close>

definition player_summary :: "(json \<Rightarrow> string) \<Rightarrow> json \<Rightarrow> exn + string" where
  "player_summary rp player =
     bindE (subscript player ''player'') (\<lambda>player_info.
     bindE (first_statistics player) (\<lambda>stats.
     bindE (extract_stats stats) (\<lambda>v.
     bindE (headline rp player_info v) (\<lambda>s1.
     bindE (attack_line rp v) (\<lambda>s2.
     bindE (defense_line rp v) (\<lambda>s3.
     bindE (cards_line rp v) (\<lambda>s4.
     Inr (s1 @ s2 @ s3 @ s4 @ nl))))))))"

fun players_summary :: "(json \<Rightarrow> string) \<Rightarrow> json list \<Rightarrow> exn + string" where
  "players_summary rp [] = Inr []"
| "players_summary rp (player # players) =
     bindE (player_summary rp player) (\<lambda>s.
     bindE (players_summary rp players) (\<lambda>rest. Inr (s @ rest)))"

definition team_summary :: "(json \<Rightarrow> string) \<Rightarrow> json \<Rightarrow> exn + string" where
  "team_summary rp team =
     bindE (subscript team ''team'') (\<lambda>t.
     bindE (subscript t ''name'') (\<lambda>team_name.
     bindE (dict_get team ''players'' (JArr [])) (\<lambda>pl.
     bindE (py_iter pl) (\<lambda>players.
     bindE (players_summary rp players) (\<lambda>s.
     Inr (nl @ ''=== '' @ py_str rp team_name @ '' ==='' @ nl @ s))))))"

fun create_player_summary :: "(json \<Rightarrow> string) \<Rightarrow> json list \<Rightarrow> exn + string" where
  "create_player_summary rp [] = Inr []"
| "create_player_summary rp (team # stats_data) =
     bindE (team_summary rp team) (\<lambda>s.
     bindE (create_player_summary rp stats_data) (\<lambda>rest. Inr (s @ rest)))"

subsection \<open>determine\_mvp\<close>

text \<open>The value of \<open>played_minutes\<close> when the filter compares it with 5.\<close>

definition played_minutes :: "json \<Rightarrow> exn + json" where
  "played_minutes player =
     bindE (dict_get player ''statistics'' JNull) (\<lambda>st.
     bindE (if truthy st
            then bindE (subscript player ''statistics'') (\<lambda>s.
                 bindE (py_len s) (\<lambda>n. Inr (n > 0)))
            else Inr False) (\<lambda>has_statistics.
     if has_statistics then
       bindE (subscript player ''statistics'') (\<lambda>s.
       bindE (subscript0 s) (\<lambda>s0.
       bindE (dict_get s0 ''games'' (JObj [])) (\<lambda>games.
       bindE (dict_get games ''minutes'' JNull) (\<lambda>m.
       bindE (if m \<noteq> JNull then py_gt m 0 else Inr False) (\<lambda>positive.
       Inr (if positive then m else JInt 0))))))
     else Inr (JInt 0)))"

definition keep_player :: "json \<Rightarrow> exn + bool" where
  "keep_player player = bindE (played_minutes player) (\<lambda>pm. py_gt pm 5)"

text \<open>
  The loops of the filter carry \<open>(list, total_players, filtered_players)\<close>: the list
  under construction and the two counters.
\<close>

fun filter_players :: "json list \<Rightarrow> json list \<times> nat \<times> nat \<Rightarrow> exn + json list \<times> nat \<times> nat" where
  "filter_players [] st = Inr st"
| "filter_players (player # players) (filtered_players_list, total_players, filtered_players) =
     bindE (keep_player player) (\<lambda>keep.
     if keep
     then filter_players players
            (filtered_players_list @ [player], total_players + 1, filtered_players + 1)
     else filter_players players (filtered_players_list, total_players + 1, filtered_players))"

text \<open>\<open>team.copy()\<close>: dicts and lists have the method.\<close>

fun py_copy :: "json \<Rightarrow> exn + json" where
  "py_copy (JObj kvs) = Inr (JObj kvs)"
| "py_copy (JArr xs) = Inr (JArr xs)"
| "py_copy _ = Inl AttributeError"

fun assoc_set :: "string \<Rightarrow> json \<Rightarrow> (string \<times> json) list \<Rightarrow> (string \<times> json) list" where
  "assoc_set k v [] = [(k, v)]"
| "assoc_set k v (p # ps) = (if fst p = k then (k, v) # ps else p # assoc_set k v ps)"

text \<open>\<open>d[k] = v\<close> with a string key.\<close>

fun dict_set :: "json \<Rightarrow> string \<Rightarrow> json \<Rightarrow> exn + json" where
  "dict_set (JObj kvs) k v = Inr (JObj (assoc_set k v kvs))"
| "dict_set _ k v = Inl TypeError"

fun filter_teams :: "json list \<Rightarrow> json list \<times> nat \<times> nat \<Rightarrow> exn + json list \<times> nat \<times> nat" where
  "filter_teams [] st = Inr st"
| "filter_teams (team # teams) (filtered_stats, total_players, filtered_players) =
     bindE (py_copy team) (\<lambda>team_copy.
     bindE (dict_get team ''players'' (JArr [])) (\<lambda>pl.
     bindE (py_iter pl) (\<lambda>players.
     bindE (filter_players players ([], total_players, filtered_players)) (\<lambda>st.
     bindE (dict_set team_copy ''players'' (JArr (fst st))) (\<lambda>team_copy.
     filter_teams teams (filtered_stats @ [team_copy], fst (snd st), snd (snd st)))))))"

definition pad :: string where
  "pad = ''            ''"

definition mvp_prompt :: "string \<Rightarrow> string" where
  "mvp_prompt summary =
     nl @ pad @ ''Based on the following player statistics summary from a football match, determine who was the Most Valuable Player (MVP) and explain why.'' @ nl
     @ pad @ nl
     @ pad @ ''Note: Only players who played more than 5 minutes are included in this analysis.'' @ nl
     @ pad @ nl
     @ pad @ summary @ nl
     @ pad @ nl
     @ pad @ ''Analyze key metrics such as:'' @ nl
     @ pad @ ''- Goals and assists (most important)'' @ nl
     @ pad @ ''- Overall rating'' @ nl
     @ pad @ ''- Passing accuracy and key passes  '' @ nl
     @ pad @ ''- Defensive actions (tackles, interceptions, blocks)'' @ nl
     @ pad @ ''- Goalkeeper saves (if applicable)'' @ nl
     @ pad @ ''- Minutes played and impact on the game'' @ nl
     @ pad @ nl
     @ pad @ ''Choose ONE player as MVP and provide a detailed explanation focusing on their most impactful contributions.'' @ nl
     @ pad @ ''Format your response as: '' @ [CHR 0x22] @ ''MVP: [Player Name] - [Detailed explanation of why they deserve MVP]'' @ [CHR 0x22] @ nl
     @ pad"

text \<open>The last line of the answer.\<close>

definition analysis_line :: "nat \<Rightarrow> nat \<Rightarrow> string" where
  "analysis_line total_players filtered_players =
     chart @ '' Analysis based on '' @ show_int (int filtered_players)
     @ '' players (filtered out '' @ show_int (int total_players - int filtered_players)
     @ '' who played '' @ le_sign @ ''5 minutes)''"

text \<open>
  The body of the \<open>try\<close>. The language model is the parameter \<open>llm\<close>, from the prompt to
  the text of its completion, or to the exception that the call raises.
\<close>

definition mvp_body ::
  "network \<Rightarrow> (string \<Rightarrow> exn + string) \<Rightarrow> (json \<Rightarrow> string) \<Rightarrow> int \<Rightarrow> exn + string" where
  "mvp_body net llm rp fixture_id =
     bindE (get_player_stats net fixture_id) (\<lambda>stats_data.
     if \<not> truthy stats_data then
       Inr (''No player statistics found for fixture '' @ show_int fixture_id)
     else
       bindE (py_iter stats_data) (\<lambda>teams.
       bindE (filter_teams teams ([], 0, 0)) (\<lambda>st.
       bindE (create_player_summary rp (fst st)) (\<lambda>summary.
       bindE (llm (mvp_prompt summary)) (\<lambda>response_text.
       Inr (response_text @ nl @ nl @ analysis_line (fst (snd st)) (snd (snd st))))))))"

text \<open>\<open>exc_str e\<close> is \<open>str(e)\<close>, the message of the exception.\<close>

definition determine_mvp ::
  "network \<Rightarrow> (string \<Rightarrow> exn + string) \<Rightarrow> (json \<Rightarrow> string) \<Rightarrow> (exn \<Rightarrow> string) \<Rightarrow> int \<Rightarrow> string" where
  "determine_mvp net llm rp exc_str fixture_id =
     (case mvp_body net llm rp fixture_id of
        Inl e \<Rightarrow> ''Error analyzing MVP: '' @ exc_str e
      | Inr s \<Rightarrow> s)"

section \<open>The interactive loop (main.py)\<close>













section \<open>Notions used to state the properties\<close>

subsection \<open>Inputs of the parser\<close>

text \<open>
  A separator word stands at the head of \<open>s\<close>: one of the words, followed by a blank or
  by the end of \<open>s\<close>.
\<close>

definition word_at :: "string list \<Rightarrow> string \<Rightarrow> bool" where
  "word_at seps s =
     list_ex (\<lambda>w. take (length w) s = w
                   \<and> (drop (length w) s = [] \<or> is_space (hd (drop (length w) s)))) seps"

text \<open>No separator word follows a blank of \<open>s\<close>.\<close>

fun sep_free :: "string list \<Rightarrow> string \<Rightarrow> bool" where
  "sep_free seps [] = True"
| "sep_free seps (c # s) = ((is_space c \<longrightarrow> \<not> word_at seps s) \<and> sep_free seps s)"

text \<open>
  A team name, of one word or of several: trimmed, on one line, and with no separator
  word after its first word.
\<close>

definition team_name :: "string list \<Rightarrow> string \<Rightarrow> bool" where
  "team_name seps a =
     (a \<noteq> [] \<and> \<not> is_space (hd a) \<and> \<not> is_space (last a)
      \<and> list_all (\<lambda>c. c \<noteq> CHR 0x0A) a \<and> sep_free seps a)"










subsection \<open>Responses of the statistics API\<close>











subsection \<open>Example data\<close>

definition fixture_example :: "int \<Rightarrow> string \<Rightarrow> string \<Rightarrow> json" where
  "fixture_example i home away =
     JObj [(''fixture'', JObj [(''id'', JInt i), (''date'', JStr ''2023-10-28T14:15:00+00:00'')]),
           (''teams'', JObj [(''home'', JObj [(''id'', JInt 541), (''name'', JStr home)]),
                             (''away'', JObj [(''id'', JInt 529), (''name'', JStr away)])])]"

definition fixtures_body :: "json list \<Rightarrow> (string \<times> json) list" where
  "fixtures_body fixtures = [(''errors'', JArr []), (''response'', JArr fixtures)]"

definition clasico_net :: network where
  "clasico_net endpoint params =
     Response 200 ''{...}''
       (Parsed (JObj (fixtures_body [fixture_example 12345 ''Real Madrid'' ''Barcelona''])))"



subsection \<open>Player statistics\<close>

text \<open>The value under a key of an object; \<open>JNull\<close> when there is none.\<close>

definition field :: "json \<Rightarrow> string \<Rightarrow> json" where
  "field d k =
     (case d of
        JObj kvs \<Rightarrow> (case map_of kvs k of Some v \<Rightarrow> v | None \<Rightarrow> JNull)
      | _ \<Rightarrow> JNull)"

fun is_obj :: "json \<Rightarrow> bool" where
  "is_obj (JObj kvs) = True"
| "is_obj _ = False"

fun first_entry :: "json \<Rightarrow> json" where
  "first_entry (JArr (s # ss)) = s"
| "first_entry _ = JObj []"

text \<open>The first statistics entry of a player; the empty object when there is none.\<close>

definition stat_entry :: "json \<Rightarrow> json" where
  "stat_entry player = first_entry (field player ''statistics'')"

text \<open>One statistic of a player, \<open>JNull\<close> when it is absent.\<close>

definition stat :: "json \<Rightarrow> string \<Rightarrow> string \<Rightarrow> json" where
  "stat player grp k = field (field (stat_entry player) grp) k"

text \<open>A counting statistic: zero when it is absent or null.\<close>

definition count_of :: "json \<Rightarrow> int" where
  "count_of v = (case v of JInt n \<Rightarrow> n | _ \<Rightarrow> 0)"

definition stat_minutes :: "json \<Rightarrow> int" where
  "stat_minutes player = count_of (stat player ''games'' ''minutes'')"

text \<open>The players of a team of the statistics payload.\<close>

definition team_players :: "json \<Rightarrow> json list" where
  "team_players team = (case field team ''players'' of JArr ps \<Rightarrow> ps | _ \<Rightarrow> [])"

definition count_players :: "json list \<Rightarrow> nat" where
  "count_players teams = sum_list (map (\<lambda>team. length (team_players team)) teams)"

subsection \<open>The digest of one player\<close>

text \<open>
  A player as the summary expects it: a \<open>player\<close> object with a name, and statistics
  that are absent (or another false value) or a list whose first entry is an object whose
  groups, when present, are objects and whose counting statistics are integers or null.
\<close>

definition is_count :: "json \<Rightarrow> bool" where
  "is_count v = (case v of JNull \<Rightarrow> True | JInt n \<Rightarrow> True | _ \<Rightarrow> False)"

definition has_key :: "json \<Rightarrow> string \<Rightarrow> bool" where
  "has_key d k = (case d of JObj kvs \<Rightarrow> map_of kvs k \<noteq> None | _ \<Rightarrow> False)"

definition group_ok :: "json \<Rightarrow> string \<Rightarrow> bool" where
  "group_ok entry grp = (is_obj entry \<and> (has_key entry grp \<longrightarrow> is_obj (field entry grp)))"

definition stat_groups :: "string list" where
  "stat_groups = [''games'', ''goals'', ''passes'', ''tackles'', ''duels'', ''shots'', ''cards'']"

definition counting_stats :: "(string \<times> string) list" where
  "counting_stats =
     [(''games'', ''minutes''), (''goals'', ''total''), (''goals'', ''assists''),
      (''goals'', ''saves''), (''shots'', ''total''), (''shots'', ''on''),
      (''passes'', ''total''), (''passes'', ''key''), (''tackles'', ''total''),
      (''tackles'', ''interceptions''), (''duels'', ''total''), (''duels'', ''won''),
      (''cards'', ''yellow''), (''cards'', ''red'')]"

definition entry_ok :: "json \<Rightarrow> bool" where
  "entry_ok entry =
     (list_all (group_ok entry) stat_groups
      \<and> list_all (\<lambda>gk. is_count (field (field entry (fst gk)) (snd gk))) counting_stats)"

fun statistics_ok :: "json \<Rightarrow> bool" where
  "statistics_ok (JArr (s # ss)) = entry_ok s"
| "statistics_ok st = (\<not> truthy st)"

definition well_typed_player :: "json \<Rightarrow> bool" where
  "well_typed_player player =
     (has_key (field player ''player'') ''name'' \<and> statistics_ok (field player ''statistics''))"

text \<open>
  The rating is shown when it is a true value other than the text \<open>N/A\<close>: a rating that
  is absent, null, the number zero or the empty text is not shown.
\<close>

definition rating_shown :: "json \<Rightarrow> bool" where
  "rating_shown r = (truthy r \<and> r \<noteq> JStr ''N/A'')"

definition clause :: "bool \<Rightarrow> string \<Rightarrow> string" where
  "clause b s = (if b then s else [])"

text \<open>The paragraph of one player, clause by clause.\<close>

definition digest_headline :: "(json \<Rightarrow> string) \<Rightarrow> json \<Rightarrow> string" where
  "digest_headline rp player =
     bullet @ '' '' @ py_str rp (field (field player ''player'') ''name'')
     @ '' ('' @ (if truthy (stat player ''games'' ''position'')
                 then py_str rp (stat player ''games'' ''position'') else ''Unknown'')
     @ '') - '' @ show_int (count_of (stat player ''games'' ''minutes'')) @ ''min''
     @ clause (rating_shown (stat player ''games'' ''rating''))
         ('', Rating: '' @ py_str rp (stat player ''games'' ''rating''))
     @ clause (0 < count_of (stat player ''goals'' ''total''))
         ('', Goals: '' @ show_int (count_of (stat player ''goals'' ''total'')))
     @ clause (0 < count_of (stat player ''goals'' ''assists''))
         ('', Assists: '' @ show_int (count_of (stat player ''goals'' ''assists'')))
     @ clause (0 < count_of (stat player ''goals'' ''saves''))
         ('', Saves: '' @ show_int (count_of (stat player ''goals'' ''saves'')))
     @ nl"

definition digest_attack :: "(json \<Rightarrow> string) \<Rightarrow> json \<Rightarrow> string" where
  "digest_attack rp player =
     clause (0 < count_of (stat player ''shots'' ''total'')
             \<or> 0 < count_of (stat player ''passes'' ''total''))
       (''  '' @ chart @ '' Attack: '' @ show_int (count_of (stat player ''shots'' ''total''))
        @ '' shots ('' @ show_int (count_of (stat player ''shots'' ''on'')) @ '' on target), ''
        @ show_int (count_of (stat player ''passes'' ''total'')) @ '' passes''
        @ clause (stat player ''passes'' ''accuracy'' \<noteq> JNull)
            ('' ('' @ py_str rp (stat player ''passes'' ''accuracy'') @ ''% acc)'')
        @ clause (0 < count_of (stat player ''passes'' ''key''))
            ('', '' @ show_int (count_of (stat player ''passes'' ''key'')) @ '' key passes'')
        @ nl)"

definition digest_defense :: "(json \<Rightarrow> string) \<Rightarrow> json \<Rightarrow> string" where
  "digest_defense rp player =
     clause (0 < count_of (stat player ''tackles'' ''total'')
             \<or> 0 < count_of (stat player ''tackles'' ''interceptions'')
             \<or> 0 < count_of (stat player ''duels'' ''total''))
       (''  '' @ shield @ '' Defense: '' @ show_int (count_of (stat player ''tackles'' ''total''))
        @ '' tackles, '' @ show_int (count_of (stat player ''tackles'' ''interceptions''))
        @ '' interceptions''
        @ clause (0 < count_of (stat player ''duels'' ''total''))
            ('', '' @ show_int (count_of (stat player ''duels'' ''won'')) @ ''/''
             @ show_int (count_of (stat player ''duels'' ''total'')) @ '' duels won'')
        @ nl)"

definition digest_cards :: "(json \<Rightarrow> string) \<Rightarrow> json \<Rightarrow> string" where
  "digest_cards rp player =
     clause (0 < count_of (stat player ''cards'' ''yellow'')
             \<or> 0 < count_of (stat player ''cards'' ''red''))
       (''  '' @ yellow_square @ '' Cards: ''
        @ show_int (count_of (stat player ''cards'' ''yellow'')) @ '' yellow, ''
        @ show_int (count_of (stat player ''cards'' ''red'')) @ '' red'' @ nl)"

definition digest_entry :: "(json \<Rightarrow> string) \<Rightarrow> json \<Rightarrow> string" where
  "digest_entry rp player =
     digest_headline rp player @ digest_attack rp player @ digest_defense rp player
     @ digest_cards rp player @ nl"


subsection \<open>Example statistics\<close>

definition player_example :: "string \<Rightarrow> json \<Rightarrow> json \<Rightarrow> json" where
  "player_example name mins goals_total =
     JObj [(''player'', JObj [(''id'', JInt 7), (''name'', JStr name)]),
           (''statistics'',
            JArr [JObj [(''games'', JObj [(''minutes'', mins), (''position'', JStr ''F''),
                                          (''rating'', JStr ''7.5'')]),
                        (''goals'', JObj [(''total'', goals_total), (''assists'', JNull),
                                          (''saves'', JNull)])]])]"

definition team_example :: "string \<Rightarrow> json list \<Rightarrow> json" where
  "team_example name players =
     JObj [(''team'', JObj [(''id'', JInt 541), (''name'', JStr name)]),
           (''players'', JArr players)]"

definition stats_net :: "json list \<Rightarrow> network" where
  "stats_net teams endpoint params =
     Response 200 ''{...}'' (Parsed (JObj [(''errors'', JArr []), (''response'', JArr teams)]))"

text \<open>Two teams of one player each, ninety minutes and one goal.\<close>

definition clasico_stats :: "json list" where
  "clasico_stats =
     [team_example ''Real Madrid'' [player_example ''Bellingham'' (JInt 90) (JInt 1)],
      team_example ''Barcelona'' [player_example ''Gundogan'' (JInt 90) (JInt 1)]]"

text \<open>A stand-in for \<open>repr\<close> and for \<open>str\<close> of an exception, and a model that always gives one answer.\<close>

definition plain_repr :: "json \<Rightarrow> string" where
  "plain_repr v = ''...''"

definition plain_message :: "exn \<Rightarrow> string" where
  "plain_message e = ''error''"

definition fixed_llm :: "string \<Rightarrow> exn + string" where
  "fixed_llm prompt = Inr ''MVP: Bellingham - scored the winner''"

definition rated_player :: "json \<Rightarrow> json" where
  "rated_player r =
     JObj [(''player'', JObj [(''name'', JStr ''Kroos'')]),
           (''statistics'',
            JArr [JObj [(''games'', JObj [(''minutes'', JInt 90), (''position'', JStr ''M''),
                                          (''rating'', r)])]])]"

definition busy_player :: "json \<Rightarrow> json \<Rightarrow> json" where
  "busy_player goals_total goal_assists =
     JObj [(''player'', JObj [(''id'', JInt 762), (''name'', JStr ''Vinicius'')]),
           (''statistics'',
            JArr [JObj [(''games'', JObj [(''minutes'', JInt 90), (''position'', JStr ''F''),
                                          (''rating'', JStr ''8.2'')]),
                        (''shots'', JObj [(''total'', JInt 3), (''on'', JInt 2)]),
                        (''goals'', JObj [(''total'', goals_total), (''assists'', goal_assists),
                                          (''saves'', JNull)]),
                        (''passes'', JObj [(''total'', JInt 40), (''key'', JNull),
                                           (''accuracy'', JStr ''88'')]),
                        (''tackles'', JObj [(''total'', JInt 1), (''interceptions'', JNull)]),
                        (''duels'', JObj [(''total'', JInt 5), (''won'', JInt 3)]),
                        (''cards'', JObj [(''yellow'', JInt 1), (''red'', JInt 0)])]])]"


subsection \<open>Iterations of the interactive loop\<close>







section \<open>Results and exceptions\<close>

lemma bindE_Inr [simp]: "bindE (Inr x) f = f x"
  by (simp add: bindE_def)

lemma bindE_Inl [simp]: "bindE (Inl e) f = Inl e"
  by (simp add: bindE_def)



section \<open>Properties of the input parser\<close>

subsection \<open>Matching team names\<close>










lemma space_not_dot: "\<not> is_space c \<Longrightarrow> c \<noteq> CHR 0x0A"
  by (auto simp: is_space_def)
























subsection \<open>Trimming\<close>

lemma lstrip_nonspace: "\<not> is_space c \<Longrightarrow> lstrip (c # s) = c # s"
  by (simp add: lstrip_def)

lemma rstrip_nonspace: "\<not> is_space c \<Longrightarrow> rstrip (s @ [c]) = s @ [c]"
  by (simp add: rstrip_def)







subsection \<open>Groups and longer inputs\<close>
















subsection \<open>The claims about the parser\<close>

lemmas parser_eval =
  parse_user_input_def re_match_def pattern_def vs_sep_def on_sep_def date_rx_def
  strip_def lstrip_def rstrip_def is_space_def is_digit_def Let_def

text \<open>
  Claim C2. The parser returns the trimmed triple for an input of the form
  \<open>team1 vs team2 on YYYY-MM-DD\<close> and \<open>None\<close> for every other input, an empty team
  name among them. The source's comment says that \<open>.+?\<close> is used "to require non-empty
  teams", but the second group may match a single blank, which \<open>strip\<close> then empties:
  with three blanks between \<open>vs\<close> and \<open>on\<close> the parser returns an empty second team.
\<close>

theorem parse_user_input_blank_team:
  "parse_user_input ''A vs   on 2024-01-01'' = Some (''A'', '''', ''2024-01-01'')"
  by (simp add: parser_eval)








section \<open>Properties of the statistics client\<close>

subsection \<open>Failures\<close>








subsection \<open>The search for a fixture\<close>

lemma str_in_iff: "str_in t s \<longleftrightarrow> (\<exists>u v. s = u @ t @ v)"
proof (induction s)
  case Nil
  then show ?case by auto
next
  case (Cons c s)
  show ?case
  proof
    assume "str_in t (c # s)"
    then consider "take (length t) (c # s) = t" | "str_in t s" by auto
    then show "\<exists>u v. c # s = u @ t @ v"
    proof cases
      case 1
      then have "c # s = [] @ t @ drop (length t) (c # s)"
        by (metis append_Nil append_take_drop_id)
      then show ?thesis by blast
    next
      case 2
      with Cons obtain u v where "s = u @ t @ v" by auto
      then have "c # s = (c # u) @ t @ v" by simp
      then show ?thesis by blast
    qed
  next
    assume "\<exists>u v. c # s = u @ t @ v"
    then obtain u v where uv: "c # s = u @ t @ v" by auto
    show "str_in t (c # s)"
    proof (cases u)
      case Nil
      with uv have "take (length t) (c # s) = t" by simp
      then show ?thesis by simp
    next
      case (Cons c' u')
      with uv have "s = u' @ t @ v" by simp
      with Cons.IH show ?thesis by auto
    qed
  qed
qed








lemma scan_fixtures_commute:
  "scan_fixtures team1 team2 fixtures = scan_fixtures team2 team1 fixtures"
proof (induction fixtures)
  case Nil
  then show ?case by simp
next
  case (Cons f fs)
  show ?case
    by (auto simp: bindE_def Let_def Cons.IH split: sum.split)
qed

lemma find_fixture_commute:
  "find_fixture net team1 team2 date = find_fixture net team2 team1 date"
proof -
  have h: "scan_fixtures team1 team2 = scan_fixtures team2 team1"
    by (rule ext) (rule scan_fixtures_commute)
  show ?thesis unfolding find_fixture_def h by (rule refl)
qed

lemma find_fixture_clasico:
  "find_fixture clasico_net ''Real Madrid'' ''Barcelona'' date
       = Inr (Some (fixture_example 12345 ''Real Madrid'' ''Barcelona''))"
  by (simp add: find_fixture_def make_request_def
        clasico_net_def fixtures_body_def has_errors_def fixture_example_def
        py_lower_def lower_char_def Let_def)

text \<open>
  Claim C5. \<open>find_fixture\<close> gives the same result when its two team names are
  exchanged, on every response; with the fixture of Real Madrid (home) against Barcelona
  (away) in the list, both orders return that fixture.
\<close>

theorem find_fixture_commutes:
  "find_fixture net team1 team2 date = find_fixture net team2 team1 date
   \<and> find_fixture clasico_net ''Real Madrid'' ''Barcelona'' date
       = Inr (Some (fixture_example 12345 ''Real Madrid'' ''Barcelona''))
   \<and> find_fixture clasico_net ''Barcelona'' ''Real Madrid'' date
       = Inr (Some (fixture_example 12345 ''Real Madrid'' ''Barcelona''))"
  using find_fixture_commute [of net team1 team2 date]
    find_fixture_commute [of clasico_net "''Barcelona''" "''Real Madrid''" date]
    find_fixture_clasico [of date]
  by simp


section \<open>Properties of the MVP tool\<close>

subsection \<open>The minutes filter\<close>

lemma bindE_eq_Inr: "bindE m f = Inr y \<longleftrightarrow> (\<exists>x. m = Inr x \<and> f x = Inr y)"
  by (cases m) auto

lemma dict_get_Inr: "dict_get d k v = Inr x \<Longrightarrow> is_obj d"
  by (cases d) auto

lemma dict_get_field: "is_obj d \<Longrightarrow> dict_get d k JNull = Inr (field d k)"
  by (cases d) (auto simp: field_def split: option.splits)

lemma minutes_decision:
  assumes "bindE (bindE (if m \<noteq> JNull then py_gt m 0 else Inr False)
                    (\<lambda>positive. Inr (if positive then m else JInt 0)))
                 (\<lambda>pm. py_gt pm 5) = Inr b"
  shows "b = (5 < count_of m)"
  using assms by (cases m) (auto simp: count_of_def split: if_splits)

lemma keep_player_none:
  assumes "\<not> truthy (field player ''statistics'')" "is_obj player"
  shows "keep_player player = Inr False" and "stat_minutes player = 0"
proof -
  from assms(2) have "dict_get player ''statistics'' JNull = Inr (field player ''statistics'')"
    by (rule dict_get_field)
  with assms(1) show "keep_player player = Inr False"
    by (simp add: keep_player_def played_minutes_def)
  from assms(1) have "first_entry (field player ''statistics'') = JObj []"
    by (cases "field player ''statistics''" rule: first_entry.cases) auto
  then show "stat_minutes player = 0"
    by (simp add: stat_minutes_def stat_def stat_entry_def field_def count_of_def)
qed

lemma keep_player_entry:
  assumes "player = JObj kvs" "map_of kvs ''statistics'' = Some (JArr (JObj sk # ss))"
  shows "keep_player player =
           bindE (dict_get (JObj sk) ''games'' (JObj [])) (\<lambda>games.
           bindE (dict_get games ''minutes'' JNull) (\<lambda>m.
           bindE (bindE (if m \<noteq> JNull then py_gt m 0 else Inr False)
                    (\<lambda>positive. Inr (if positive then m else JInt 0)))
                 (\<lambda>pm. py_gt pm 5)))"
  using assms by (simp add: keep_player_def played_minutes_def bindE_def split: sum.splits)

lemma keep_player_minutes:
  assumes "keep_player player = Inr b"
  shows "b = (5 < stat_minutes player)"
proof (cases "is_obj player")
  case False
  then have "keep_player player = Inl AttributeError"
    by (cases player) (simp_all add: keep_player_def played_minutes_def)
  with assms show ?thesis by simp
next
  case True
  then obtain kvs where kvs: "player = JObj kvs" by (cases player) auto
  show ?thesis
  proof (cases "truthy (field player ''statistics'')")
    case False
    from keep_player_none [OF False True] assms show ?thesis by simp
  next
    case t: True
    then obtain st where st: "map_of kvs ''statistics'' = Some st" "truthy st"
      using kvs by (auto simp: field_def split: option.splits)
    show ?thesis
    proof (cases st)
      case (JArr xs)
      with st(2) obtain s0 ss where xs: "xs = s0 # ss" by (cases xs) auto
      show ?thesis
      proof (cases s0)
        case (JObj sk)
        note k = keep_player_entry [OF kvs st(1) [unfolded JArr xs JObj]]
        have se: "stat_entry player = JObj sk"
          using kvs st(1) JArr xs JObj by (simp add: stat_entry_def field_def)
        show ?thesis
        proof (cases "map_of sk ''games''")
          case None
          with k assms have "b = False" by simp
          moreover from None se have "stat_minutes player = 0"
            by (simp add: stat_minutes_def stat_def field_def count_of_def)
          ultimately show ?thesis by simp
        next
          case (Some games)
          show ?thesis
          proof (cases "is_obj games")
            case False
            with k Some have "keep_player player = Inl AttributeError"
              by (cases games) simp_all
            with assms show ?thesis by simp
          next
            case True
            then have "dict_get games ''minutes'' JNull = Inr (field games ''minutes'')"
              by (rule dict_get_field)
            with k Some assms have "b = (5 < count_of (field games ''minutes''))"
              by (simp add: minutes_decision)
            moreover from Some se have "stat_minutes player = count_of (field games ''minutes'')"
              by (simp add: stat_minutes_def stat_def field_def)
            ultimately show ?thesis by simp
          qed
        qed
      qed (use assms kvs st(1) JArr xs in \<open>simp_all add: keep_player_def played_minutes_def\<close>)
    next
      case (JStr cs)
      with st(2) obtain c cs' where "cs = c # cs'" by (cases cs) auto
      with assms kvs st(1) JStr show ?thesis
        by (simp add: keep_player_def played_minutes_def)
    next
      case (JObj okv)
      with st(2) obtain kv okv' where "okv = kv # okv'" by (cases okv) auto
      with assms kvs st(1) JObj show ?thesis
        by (simp add: keep_player_def played_minutes_def)
    qed (use assms kvs st in \<open>simp_all add: keep_player_def played_minutes_def\<close>)
  qed
qed

lemma filter_players_result:
  "filter_players players (lst, t, k) = Inr (lst', t', k') \<Longrightarrow>
   lst' = lst @ filter (\<lambda>p. 5 < stat_minutes p) players
   \<and> t' = t + length players
   \<and> k' = k + length (filter (\<lambda>p. 5 < stat_minutes p) players)"
proof (induction players arbitrary: lst t k)
  case Nil
  then show ?case by simp
next
  case (Cons p ps)
  from Cons.prems obtain keep where keep: "keep_player p = Inr keep"
    by (cases "keep_player p") auto
  then have m: "keep = (5 < stat_minutes p)" by (rule keep_player_minutes)
  show ?case
  proof (cases keep)
    case True
    with Cons.prems keep have "filter_players ps (lst @ [p], t + 1, k + 1) = Inr (lst', t', k')"
      by simp
    from Cons.IH [OF this] True m show ?thesis by simp
  next
    case False
    with Cons.prems keep have "filter_players ps (lst, t + 1, k) = Inr (lst', t', k')"
      by simp
    from Cons.IH [OF this] False m show ?thesis by simp
  qed
qed

lemma filter_players_str: "filter_players (JStr c # ps) st = Inl AttributeError"
  by (cases st) (simp add: keep_player_def played_minutes_def)

lemma team_players_iter:
  assumes "dict_get team ''players'' (JArr []) = Inr pl" "py_iter pl = Inr players"
    and "filter_players players st = Inr st'"
  shows "players = team_players team"
proof -
  from assms(1) obtain tk where tk: "team = JObj tk" by (cases team) auto
  show ?thesis
  proof (cases "map_of tk ''players''")
    case None
    with assms(1,2) tk show ?thesis by (auto simp: team_players_def field_def)
  next
    case (Some v)
    with assms(1) tk have v: "field team ''players'' = pl" by (auto simp: field_def)
    show ?thesis
    proof (cases pl)
      case (JArr ps)
      with assms(2) v show ?thesis by (simp add: team_players_def)
    next
      case (JObj kv)
      with assms(2,3) v show ?thesis
        by (cases kv) (auto simp: team_players_def filter_players_str)
    next
      case (JStr cs)
      with assms(2,3) v show ?thesis
        by (cases cs) (auto simp: team_players_def filter_players_str)
    qed (use assms(2) in simp_all)
  qed
qed

lemma map_of_assoc_set: "map_of (assoc_set k v kvs) k = Some v"
  by (induction kvs) auto

lemma filter_teams_result:
  "filter_teams teams (acc, t, k) = Inr (fs, t', k') \<Longrightarrow>
   \<exists>fs'. fs = acc @ fs'
     \<and> map team_players fs' = map (\<lambda>team. filter (\<lambda>p. 5 < stat_minutes p) (team_players team)) teams
     \<and> t' = t + count_players teams
     \<and> k' = k + count_players fs'"
proof (induction teams arbitrary: acc t k)
  case Nil
  then show ?case by (simp add: count_players_def)
next
  case (Cons team ts)
  from Cons.prems obtain team_copy where c: "py_copy team = Inr team_copy"
    by (cases "py_copy team") auto
  from Cons.prems c obtain pl where pl: "dict_get team ''players'' (JArr []) = Inr pl"
    by (cases "dict_get team ''players'' (JArr [])") auto
  from Cons.prems c pl obtain players where it: "py_iter pl = Inr players"
    by (cases "py_iter pl") auto
  from Cons.prems c pl it obtain lst tt kk where
      fp: "filter_players players ([], t, k) = Inr (lst, tt, kk)"
    by (cases "filter_players players ([], t, k)") auto
  from pl obtain tk where tk: "team = JObj tk" by (cases team) auto
  with c have tc: "team_copy = JObj tk" by simp
  define tc' where "tc' = JObj (assoc_set ''players'' (JArr lst) tk)"
  from Cons.prems c pl it fp tc have
      rest: "filter_teams ts (acc @ [tc'], tt, kk) = Inr (fs, t', k')"
    by (simp add: tc'_def)
  from Cons.IH [OF rest] obtain fs' where fs': "fs = (acc @ [tc']) @ fs'"
      "map team_players fs' = map (\<lambda>team. filter (\<lambda>p. 5 < stat_minutes p) (team_players team)) ts"
      "t' = tt + count_players ts" "k' = kk + count_players fs'"
    by blast
  have p: "players = team_players team" by (rule team_players_iter [OF pl it fp])
  from filter_players_result [OF fp] have r: "lst = filter (\<lambda>p. 5 < stat_minutes p) players"
      "tt = t + length players" "kk = k + length lst"
    by simp_all
  have tp: "team_players tc' = lst"
    by (simp add: tc'_def team_players_def field_def map_of_assoc_set)
  have "fs = acc @ (tc' # fs')" using fs'(1) by simp
  moreover have "map team_players (tc' # fs')
      = map (\<lambda>team. filter (\<lambda>p. 5 < stat_minutes p) (team_players team)) (team # ts)"
    using fs'(2) tp r(1) p by simp
  moreover have "t' = t + count_players (team # ts)"
    using fs'(3) r(2) p by (simp add: count_players_def)
  moreover have "k' = k + count_players (tc' # fs')"
    using fs'(4) r(3) tp by (simp add: count_players_def)
  ultimately show ?case by blast
qed

text \<open>
  Claim C3. The roster handed to the summary holds, team by team, exactly the fetched
  players whose minutes are more than 5, null or absent minutes counting as 0: so every
  player of it has played more than 5 minutes. (3 minutes: left out; 6 minutes: kept;
  null minutes or no statistics entry: left out.)
\<close>

theorem filter_keeps_over_five_minutes:
  assumes "filter_teams teams ([], 0, 0) = Inr (filtered_stats, total_players, filtered_players)"
  shows "map team_players filtered_stats
           = map (\<lambda>team. filter (\<lambda>p. 5 < stat_minutes p) (team_players team)) teams
         \<and> list_all (\<lambda>team. list_all (\<lambda>p. 5 < stat_minutes p) (team_players team)) filtered_stats"
proof -
  from filter_teams_result [OF assms] have
    m: "map team_players filtered_stats
          = map (\<lambda>team. filter (\<lambda>p. 5 < stat_minutes p) (team_players team)) teams"
    by auto
  have "list_all (list_all (\<lambda>p. 5 < stat_minutes p)) (map team_players filtered_stats)"
    unfolding m by (simp add: list_all_iff)
  then have "list_all (\<lambda>team. list_all (\<lambda>p. 5 < stat_minutes p) (team_players team)) filtered_stats"
    by (simp add: list_all_iff)
  with m show ?thesis by simp
qed

lemmas stats_eval =
  player_example_def team_example_def keep_player_def played_minutes_def
  team_players_def field_def stat_minutes_def stat_def stat_entry_def count_of_def

theorem filter_keeps_over_five_minutes_witness:
  "filter_teams
     [team_example ''Real Madrid''
        [player_example ''Three'' (JInt 3) JNull, player_example ''Six'' (JInt 6) JNull,
         player_example ''Null'' JNull JNull,
         JObj [(''player'', JObj [(''name'', JStr ''Bench'')]), (''statistics'', JArr [])]]]
     ([], 0, 0)
     = Inr ([team_example ''Real Madrid'' [player_example ''Six'' (JInt 6) JNull]], 4, 1)
   \<and> map team_players [team_example ''Real Madrid'' [player_example ''Six'' (JInt 6) JNull]]
     = [[player_example ''Six'' (JInt 6) JNull]]
   \<and> list_all (\<lambda>team. list_all (\<lambda>p. 5 < stat_minutes p) (team_players team))
        [team_example ''Real Madrid'' [player_example ''Six'' (JInt 6) JNull]]"
proof -
  have h: "filter_teams
     [team_example ''Real Madrid''
        [player_example ''Three'' (JInt 3) JNull, player_example ''Six'' (JInt 6) JNull,
         player_example ''Null'' JNull JNull,
         JObj [(''player'', JObj [(''name'', JStr ''Bench'')]), (''statistics'', JArr [])]]]
     ([], 0, 0)
     = Inr ([team_example ''Real Madrid'' [player_example ''Six'' (JInt 6) JNull]], 4, 1)"
    by (simp add: stats_eval)
  from filter_keeps_over_five_minutes [OF h] h show ?thesis
    by (simp add: stats_eval)
qed

subsection \<open>The answer of determine\_mvp\<close>

text \<open>
  Claim C7. When the statistics are fetched and summarised and the model answers,
  \<open>determine_mvp\<close> returns the text of the model unchanged, a blank line and the line
  \<open>Analysis based on N players (filtered out M who played \<le>5 minutes)\<close>, which the
  source starts with a chart symbol; \<open>N\<close> is the number of players that the filter
  keeps and \<open>M\<close> the number of fetched players less \<open>N\<close>.
\<close>

theorem determine_mvp_summary_line:
  assumes "get_player_stats net fixture_id = Inr stats_data" and "truthy stats_data"
    and "py_iter stats_data = Inr teams"
    and "filter_teams teams ([], 0, 0) = Inr (filtered_stats, total_players, filtered_players)"
    and "create_player_summary rp filtered_stats = Inr summary"
    and "llm (mvp_prompt summary) = Inr response_text"
  shows "determine_mvp net llm rp exc_str fixture_id
           = response_text @ nl @ nl @ chart @ '' Analysis based on ''
             @ show_int (int filtered_players) @ '' players (filtered out ''
             @ show_int (int total_players - int filtered_players)
             @ '' who played '' @ le_sign @ ''5 minutes)''
         \<and> filtered_players = count_players filtered_stats
         \<and> total_players = count_players teams"
proof -
  from filter_teams_result [OF assms(4)] have
    "filtered_players = count_players filtered_stats \<and> total_players = count_players teams"
    by auto
  moreover have "mvp_body net llm rp fixture_id
      = Inr (response_text @ nl @ nl @ analysis_line total_players filtered_players)"
    using assms by (simp add: mvp_body_def)
  ultimately show ?thesis by (simp add: determine_mvp_def analysis_line_def)
qed

lemma show_int_digit [simp]:
  "show_int 0 = ''0''" "show_int 1 = ''1''" "show_int 2 = ''2''" "show_int 3 = ''3''"
  "show_int 4 = ''4''" "show_int 5 = ''5''"
  by (simp_all add: show_int_def show_nat.simps)

lemmas summary_eval =
  player_summary_def first_statistics_def extract_stats_def get_or_def py_or_def
  headline_def attack_line_def defense_line_def cards_line_def gt0_or_def Let_def
  team_summary_def

theorem determine_mvp_summary_line_witness:
  "determine_mvp (stats_net clasico_stats) fixed_llm plain_repr plain_message 12345
     = ''MVP: Bellingham - scored the winner'' @ nl @ nl @ chart
       @ '' Analysis based on 2 players (filtered out 0 who played '' @ le_sign @ ''5 minutes)''"
proof -
  have 1: "get_player_stats (stats_net clasico_stats) 12345 = Inr (JArr clasico_stats)"
    by (simp add: get_player_stats_def make_request_def stats_net_def has_errors_def
          clasico_stats_def)
  have 2: "truthy (JArr clasico_stats)" by (simp add: clasico_stats_def)
  have 3: "py_iter (JArr clasico_stats) = Inr clasico_stats" by simp
  have 4: "filter_teams clasico_stats ([], 0, 0) = Inr (clasico_stats, 2, 2)"
    by (simp add: clasico_stats_def stats_eval)
  obtain summary where 5: "create_player_summary plain_repr clasico_stats = Inr summary"
    by (simp add: clasico_stats_def team_example_def player_example_def summary_eval)
  have 6: "fixed_llm (mvp_prompt summary) = Inr ''MVP: Bellingham - scored the winner''"
    by (simp add: fixed_llm_def)
  from determine_mvp_summary_line
         [where llm = fixed_llm and exc_str = plain_message, OF 1 2 3 4 5 6] show ?thesis
    by simp
qed

subsection \<open>The digest of a player\<close>

lemma dict_get_group:
  assumes "group_ok e g"
  shows "\<exists>G. dict_get e g (JObj []) = Inr G \<and> is_obj G \<and> (\<forall>k. field G k = field (field e g) k)"
proof -
  from assms obtain ek where ek: "e = JObj ek" by (cases e) (auto simp: group_ok_def)
  show ?thesis
  proof (cases "map_of ek g")
    case None
    with ek show ?thesis by (simp add: field_def)
  next
    case (Some v)
    with assms ek have "is_obj v" by (simp add: group_ok_def has_key_def field_def)
    with Some ek show ?thesis by (simp add: field_def)
  qed
qed

lemma get_or_any: "is_obj G \<Longrightarrow> get_or G k d = Inr (py_or (field G k) d)"
  by (simp add: get_or_def dict_get_field)

lemma get_or_count:
  assumes "is_obj G" "is_count (field G k)"
  shows "get_or G k (JInt 0) = Inr (JInt (count_of (field G k)))"
proof -
  from assms(2) have "py_or (field G k) (JInt 0) = JInt (count_of (field G k))"
    by (cases "field G k") (auto simp: is_count_def py_or_def count_of_def)
  with assms(1) show ?thesis by (simp add: get_or_any)
qed

lemma extract_stats_ok:
  assumes "entry_ok e"
  shows "\<exists>v. extract_stats e = Inr v
    \<and> minutes v = JInt (count_of (field (field e ''games'') ''minutes''))
    \<and> position v = py_or (field (field e ''games'') ''position'') (JStr ''Unknown'')
    \<and> rating v = py_or (field (field e ''games'') ''rating'') (JStr ''N/A'')
    \<and> goals v = JInt (count_of (field (field e ''goals'') ''total''))
    \<and> assists v = JInt (count_of (field (field e ''goals'') ''assists''))
    \<and> saves v = JInt (count_of (field (field e ''goals'') ''saves''))
    \<and> shots_total v = JInt (count_of (field (field e ''shots'') ''total''))
    \<and> shots_on_target v = JInt (count_of (field (field e ''shots'') ''on''))
    \<and> passes_total v = JInt (count_of (field (field e ''passes'') ''total''))
    \<and> passes_accuracy v = field (field e ''passes'') ''accuracy''
    \<and> key_passes v = JInt (count_of (field (field e ''passes'') ''key''))
    \<and> tackles_total v = JInt (count_of (field (field e ''tackles'') ''total''))
    \<and> interceptions v = JInt (count_of (field (field e ''tackles'') ''interceptions''))
    \<and> duels_total v = JInt (count_of (field (field e ''duels'') ''total''))
    \<and> duels_won v = JInt (count_of (field (field e ''duels'') ''won''))
    \<and> yellow_cards v = JInt (count_of (field (field e ''cards'') ''yellow''))
    \<and> red_cards v = JInt (count_of (field (field e ''cards'') ''red''))"
proof -
  from assms have g: "group_ok e ''games''" "group_ok e ''goals''" "group_ok e ''passes''"
      "group_ok e ''tackles''" "group_ok e ''duels''" "group_ok e ''shots''" "group_ok e ''cards''"
    by (simp_all add: entry_ok_def stat_groups_def)
  from assms have c:
      "is_count (field (field e ''games'') ''minutes'')"
      "is_count (field (field e ''goals'') ''total'')"
      "is_count (field (field e ''goals'') ''assists'')"
      "is_count (field (field e ''goals'') ''saves'')"
      "is_count (field (field e ''shots'') ''total'')"
      "is_count (field (field e ''shots'') ''on'')"
      "is_count (field (field e ''passes'') ''total'')"
      "is_count (field (field e ''passes'') ''key'')"
      "is_count (field (field e ''tackles'') ''total'')"
      "is_count (field (field e ''tackles'') ''interceptions'')"
      "is_count (field (field e ''duels'') ''total'')"
      "is_count (field (field e ''duels'') ''won'')"
      "is_count (field (field e ''cards'') ''yellow'')"
      "is_count (field (field e ''cards'') ''red'')"
    by (simp_all add: entry_ok_def counting_stats_def)
  from dict_get_group [OF g(1)] obtain Ga where Ga: "dict_get e ''games'' (JObj []) = Inr Ga"
      "is_obj Ga" "\<And>k. field Ga k = field (field e ''games'') k" by blast
  from dict_get_group [OF g(2)] obtain Go where Go: "dict_get e ''goals'' (JObj []) = Inr Go"
      "is_obj Go" "\<And>k. field Go k = field (field e ''goals'') k" by blast
  from dict_get_group [OF g(3)] obtain Gp where Gp: "dict_get e ''passes'' (JObj []) = Inr Gp"
      "is_obj Gp" "\<And>k. field Gp k = field (field e ''passes'') k" by blast
  from dict_get_group [OF g(4)] obtain Gt where Gt: "dict_get e ''tackles'' (JObj []) = Inr Gt"
      "is_obj Gt" "\<And>k. field Gt k = field (field e ''tackles'') k" by blast
  from dict_get_group [OF g(5)] obtain Gd where Gd: "dict_get e ''duels'' (JObj []) = Inr Gd"
      "is_obj Gd" "\<And>k. field Gd k = field (field e ''duels'') k" by blast
  from dict_get_group [OF g(6)] obtain Gs where Gs: "dict_get e ''shots'' (JObj []) = Inr Gs"
      "is_obj Gs" "\<And>k. field Gs k = field (field e ''shots'') k" by blast
  from dict_get_group [OF g(7)] obtain Gc where Gc: "dict_get e ''cards'' (JObj []) = Inr Gc"
      "is_obj Gc" "\<And>k. field Gc k = field (field e ''cards'') k" by blast
  have n: "get_or Ga ''minutes'' (JInt 0) = Inr (JInt (count_of (field (field e ''games'') ''minutes'')))"
      "get_or Go ''total'' (JInt 0) = Inr (JInt (count_of (field (field e ''goals'') ''total'')))"
      "get_or Go ''assists'' (JInt 0) = Inr (JInt (count_of (field (field e ''goals'') ''assists'')))"
      "get_or Go ''saves'' (JInt 0) = Inr (JInt (count_of (field (field e ''goals'') ''saves'')))"
      "get_or Gs ''total'' (JInt 0) = Inr (JInt (count_of (field (field e ''shots'') ''total'')))"
      "get_or Gs ''on'' (JInt 0) = Inr (JInt (count_of (field (field e ''shots'') ''on'')))"
      "get_or Gp ''total'' (JInt 0) = Inr (JInt (count_of (field (field e ''passes'') ''total'')))"
      "get_or Gp ''key'' (JInt 0) = Inr (JInt (count_of (field (field e ''passes'') ''key'')))"
      "get_or Gt ''total'' (JInt 0) = Inr (JInt (count_of (field (field e ''tackles'') ''total'')))"
      "get_or Gt ''interceptions'' (JInt 0) = Inr (JInt (count_of (field (field e ''tackles'') ''interceptions'')))"
      "get_or Gd ''total'' (JInt 0) = Inr (JInt (count_of (field (field e ''duels'') ''total'')))"
      "get_or Gd ''won'' (JInt 0) = Inr (JInt (count_of (field (field e ''duels'') ''won'')))"
      "get_or Gc ''yellow'' (JInt 0) = Inr (JInt (count_of (field (field e ''cards'') ''yellow'')))"
      "get_or Gc ''red'' (JInt 0) = Inr (JInt (count_of (field (field e ''cards'') ''red'')))"
    using c Ga(2,3) Go(2,3) Gp(2,3) Gt(2,3) Gd(2,3) Gs(2,3) Gc(2,3)
    by (simp_all add: get_or_count)
  have o: "get_or Ga ''position'' (JStr ''Unknown'')
             = Inr (py_or (field (field e ''games'') ''position'') (JStr ''Unknown''))"
      "get_or Ga ''rating'' (JStr ''N/A'')
             = Inr (py_or (field (field e ''games'') ''rating'') (JStr ''N/A''))"
      "dict_get Gp ''accuracy'' JNull = Inr (field (field e ''passes'') ''accuracy'')"
    using Ga(2,3) Gp(2,3) by (simp_all add: get_or_any dict_get_field)
  show ?thesis
    unfolding extract_stats_def
    by (simp only: Ga(1) Go(1) Gp(1) Gt(1) Gd(1) Gs(1) Gc(1) n o bindE_Inr) simp
qed

lemma headline_value:
  assumes "subscript info ''name'' = Inr nm" "minutes v = JInt m"
    and "position v = py_or pos (JStr ''Unknown'')" "rating v = py_or r (JStr ''N/A'')"
    and "goals v = JInt g" "assists v = JInt a" "saves v = JInt sv"
  shows "headline rp info v =
     Inr (bullet @ '' '' @ py_str rp nm
          @ '' ('' @ (if truthy pos then py_str rp pos else ''Unknown'')
          @ '') - '' @ show_int m @ ''min''
          @ clause (rating_shown r) ('', Rating: '' @ py_str rp r)
          @ clause (0 < g) ('', Goals: '' @ show_int g)
          @ clause (0 < a) ('', Assists: '' @ show_int a)
          @ clause (0 < sv) ('', Saves: '' @ show_int sv)
          @ nl)"
  by (simp add: headline_def Let_def assms py_or_def clause_def rating_shown_def)

lemma attack_line_value:
  assumes "shots_total v = JInt sh" "shots_on_target v = JInt son" "passes_total v = JInt pt"
    and "passes_accuracy v = acc" "key_passes v = JInt kp"
  shows "attack_line rp v =
     Inr (clause (0 < sh \<or> 0 < pt)
           (''  '' @ chart @ '' Attack: '' @ show_int sh @ '' shots ('' @ show_int son
            @ '' on target), '' @ show_int pt @ '' passes''
            @ clause (acc \<noteq> JNull) ('' ('' @ py_str rp acc @ ''% acc)'')
            @ clause (0 < kp) ('', '' @ show_int kp @ '' key passes'')
            @ nl))"
  by (simp add: attack_line_def gt0_or_def Let_def assms clause_def)

lemma defense_line_value:
  assumes "tackles_total v = JInt tk" "interceptions v = JInt ic"
    and "duels_total v = JInt dt" "duels_won v = JInt dw"
  shows "defense_line rp v =
     Inr (clause (0 < tk \<or> 0 < ic \<or> 0 < dt)
           (''  '' @ shield @ '' Defense: '' @ show_int tk @ '' tackles, '' @ show_int ic
            @ '' interceptions''
            @ clause (0 < dt) ('', '' @ show_int dw @ ''/'' @ show_int dt @ '' duels won'')
            @ nl))"
  by (simp add: defense_line_def gt0_or_def Let_def assms clause_def)

lemma cards_line_value:
  assumes "yellow_cards v = JInt yc" "red_cards v = JInt rc"
  shows "cards_line rp v =
     Inr (clause (0 < yc \<or> 0 < rc)
           (''  '' @ yellow_square @ '' Cards: '' @ show_int yc @ '' yellow, ''
            @ show_int rc @ '' red'' @ nl))"
  by (simp add: cards_line_def gt0_or_def Let_def assms clause_def)

lemma first_statistics_ok:
  assumes "is_obj player" "statistics_ok (field player ''statistics'')"
  shows "first_statistics player = Inr (stat_entry player) \<and> entry_ok (stat_entry player)"
proof -
  from assms(1) obtain kvs where kvs: "player = JObj kvs" by (cases player) auto
  have e0: "entry_ok (JObj [])"
    by (simp add: entry_ok_def stat_groups_def counting_stats_def group_ok_def has_key_def
          field_def is_count_def)
  have g: "dict_get player ''statistics'' JNull = Inr (field player ''statistics'')"
    by (rule dict_get_field [OF assms(1)])
  show ?thesis
  proof (cases "field player ''statistics''" rule: statistics_ok.cases)
    case (1 s ss)
    then have "subscript player ''statistics'' = Inr (JArr (s # ss))"
      using kvs by (auto simp: field_def split: option.splits)
    with 1 assms(2) g show ?thesis by (simp add: first_statistics_def stat_entry_def)
  qed (use assms(2) g e0 in \<open>simp_all add: first_statistics_def stat_entry_def\<close>)
qed

lemmas digest_eval =
  digest_entry_def digest_headline_def digest_attack_def digest_defense_def digest_cards_def
  clause_def rating_shown_def stat_def stat_entry_def field_def count_of_def
  show_int_def show_nat.simps

lemmas typing_eval =
  well_typed_player_def entry_ok_def stat_groups_def counting_stats_def group_ok_def
  has_key_def is_count_def field_def

text \<open>
  Claim C6, as stated: the rating is appended exactly when the rating field is present,
  so that a rating of zero differs from no rating. The source reads the rating with
  \<open>games.get("rating") or "N/A"\<close>: a rating that is the number \<open>0\<close> gives the same
  paragraph as no rating, while the text \<open>0\<close> is shown.
\<close>

theorem zero_rating_not_shown:
  "player_summary plain_repr (rated_player (JInt 0))
     = Inr (bullet @ '' Kroos (M) - 90min'' @ nl @ nl)
   \<and> player_summary plain_repr (rated_player JNull)
     = Inr (bullet @ '' Kroos (M) - 90min'' @ nl @ nl)
   \<and> player_summary plain_repr (rated_player (JStr ''0''))
     = Inr (bullet @ '' Kroos (M) - 90min, Rating: 0'' @ nl @ nl)"
  by (simp add: rated_player_def summary_eval show_int_def show_nat.simps)

text \<open>
  Claim C6, amended: the paragraph of a player always holds the name, the position and
  the minutes; the rating is appended exactly when its value is true in Python's sense
  (present, not null, not zero, not empty) and is not the text \<open>N/A\<close>; the goals, the
  assists and the saves each exactly when positive; the attack line exactly when the
  shots or the passes are positive, with the accuracy exactly when it is present (and the
  key passes when positive); the defense line exactly when the tackles, the
  interceptions or the duels are positive, with the duels won exactly when the duels are
  positive; the cards line exactly when the yellow or the red cards are positive.
\<close>

theorem player_summary_digest:
  assumes "well_typed_player player"
  shows "player_summary rp player = Inr (digest_entry rp player)"
proof -
  from assms have hk: "has_key (field player ''player'') ''name''"
      and so: "statistics_ok (field player ''statistics'')"
    by (simp_all add: well_typed_player_def)
  from hk obtain ik where ik: "field player ''player'' = JObj ik" "map_of ik ''name'' \<noteq> None"
    by (cases "field player ''player''") (auto simp: has_key_def)
  then obtain kvs where kvs: "player = JObj kvs" by (cases player) (auto simp: field_def)
  with ik have sp: "subscript player ''player'' = Inr (JObj ik)"
    by (auto simp: field_def split: option.splits)
  from ik(2) obtain nm where nm: "map_of ik ''name'' = Some nm" by auto
  have fn: "field (field player ''player'') ''name'' = nm"
    unfolding ik(1) by (simp add: field_def nm)
  have sn: "subscript (JObj ik) ''name'' = Inr (field (field player ''player'') ''name'')"
    unfolding fn by (simp add: nm)
  from kvs so have fs: "first_statistics player = Inr (stat_entry player)"
      and eo: "entry_ok (stat_entry player)"
    using first_statistics_ok [of player] by simp_all
  from extract_stats_ok [OF eo] obtain v where v: "extract_stats (stat_entry player) = Inr v"
    "minutes v = JInt (count_of (stat player ''games'' ''minutes''))"
    "position v = py_or (stat player ''games'' ''position'') (JStr ''Unknown'')"
    "rating v = py_or (stat player ''games'' ''rating'') (JStr ''N/A'')"
    "goals v = JInt (count_of (stat player ''goals'' ''total''))"
    "assists v = JInt (count_of (stat player ''goals'' ''assists''))"
    "saves v = JInt (count_of (stat player ''goals'' ''saves''))"
    "shots_total v = JInt (count_of (stat player ''shots'' ''total''))"
    "shots_on_target v = JInt (count_of (stat player ''shots'' ''on''))"
    "passes_total v = JInt (count_of (stat player ''passes'' ''total''))"
    "passes_accuracy v = stat player ''passes'' ''accuracy''"
    "key_passes v = JInt (count_of (stat player ''passes'' ''key''))"
    "tackles_total v = JInt (count_of (stat player ''tackles'' ''total''))"
    "interceptions v = JInt (count_of (stat player ''tackles'' ''interceptions''))"
    "duels_total v = JInt (count_of (stat player ''duels'' ''total''))"
    "duels_won v = JInt (count_of (stat player ''duels'' ''won''))"
    "yellow_cards v = JInt (count_of (stat player ''cards'' ''yellow''))"
    "red_cards v = JInt (count_of (stat player ''cards'' ''red''))"
    unfolding stat_def by blast
  have h: "headline rp (JObj ik) v = Inr (digest_headline rp player)"
    unfolding digest_headline_def by (rule headline_value [OF sn v(2-7)])
  have a: "attack_line rp v = Inr (digest_attack rp player)"
    unfolding digest_attack_def by (rule attack_line_value [OF v(8-12)])
  have d: "defense_line rp v = Inr (digest_defense rp player)"
    unfolding digest_defense_def by (rule defense_line_value [OF v(13-16)])
  have c: "cards_line rp v = Inr (digest_cards rp player)"
    unfolding digest_cards_def by (rule cards_line_value [OF v(17,18)])
  show ?thesis
    by (simp add: player_summary_def sp fs v(1) h a d c digest_entry_def)
qed

theorem player_summary_digest_witness:
  "well_typed_player (busy_player (JInt 2) (JInt 0))
   \<and> player_summary plain_repr (busy_player (JInt 2) (JInt 0))
     = Inr (bullet @ '' Vinicius (F) - 90min, Rating: 8.2, Goals: 2'' @ nl
            @ ''  '' @ chart @ '' Attack: 3 shots (2 on target), 40 passes (88% acc)'' @ nl
            @ ''  '' @ shield @ '' Defense: 1 tackles, 0 interceptions, 3/5 duels won'' @ nl
            @ ''  '' @ yellow_square @ '' Cards: 1 yellow, 0 red'' @ nl
            @ nl)"
proof -
  have w: "well_typed_player (busy_player (JInt 2) (JInt 0))"
    by (simp add: busy_player_def typing_eval)
  from player_summary_digest [OF w, of plain_repr] w show ?thesis
    by (simp add: busy_player_def digest_eval)
qed

section \<open>Properties of the interactive loop\<close>











end
